theory Spec2Isabelle
  imports Complex_Main "HOL-Library.Word"
begin

section \<open>Documents\<close>

text \<open>
  The operations of KanjiComposer work on XML documents that the browser's
  \<^verbatim>\<open>DOMParser\<close> builds from text and that \<^verbatim>\<open>XMLSerializer\<close> turns back
  into text. A document is modelled as the list of the children of the
  document node; a node is an element (qualified tag name, attributes in
  document order, child nodes) or some other node (text, comment).
  Strings are byte strings: identifiers, tag names and attribute values are
  taken to be ASCII. The parser and the serializer belong to the platform and
  are parameters of every operation.
\<close>

datatype xnode = Element string "(string \<times> string) list" "xnode list" | Other string

type_synonym document = "xnode list"

text \<open>
  JavaScript numbers: NaN, the two infinities and the finite values. Finite
  values are exact reals (no rounding to a double).
\<close>

datatype jsnum = NaN | NegInf | Fin real | PosInf

text \<open>
  What the platform supplies: \<^verbatim>\<open>new DOMParser().parseFromString(s, "image/svg+xml")\<close>
  (\<open>None\<close> when it throws), \<^verbatim>\<open>new XMLSerializer().serializeToString(doc)\<close>
  and the conversion of a number to a string.
\<close>

record platform =
  parseFromString :: "string \<Rightarrow> document option"
  serializeToString :: "document \<Rightarrow> string"
  numberToString :: "jsnum \<Rightarrow> string"

datatype error = InvalidChar | NotFound string | ParserException

fun tagName :: "xnode \<Rightarrow> string" where
  "tagName (Element t a cs) = t"
| "tagName (Other s) = []"

fun attributes :: "xnode \<Rightarrow> (string \<times> string) list" where
  "attributes (Element t a cs) = a"
| "attributes (Other s) = []"

fun childNodes :: "xnode \<Rightarrow> xnode list" where
  "childNodes (Element t a cs) = cs"
| "childNodes (Other s) = []"

fun isElement :: "xnode \<Rightarrow> bool" where
  "isElement (Element t a cs) = True"
| "isElement (Other s) = False"

text \<open>\<^verbatim>\<open>el.children\<close>: the element children only.\<close>

definition children :: "xnode \<Rightarrow> xnode list" where
  "children el = filter isElement (childNodes el)"

text \<open>A type selector compares the local name, the part after the prefix.\<close>

definition localName :: "xnode \<Rightarrow> string" where
  "localName el =
     (if CHR '':'' \<in> set (tagName el)
      then tl (dropWhile (\<lambda>c. c \<noteq> CHR '':'') (tagName el))
      else tagName el)"

definition getAttribute :: "xnode \<Rightarrow> string \<Rightarrow> string option" where
  "getAttribute el k = map_of (attributes el) k"

definition hasAttribute :: "xnode \<Rightarrow> string \<Rightarrow> bool" where
  "hasAttribute el k = (getAttribute el k \<noteq> None)"

fun setAttr :: "string \<Rightarrow> string \<Rightarrow> (string \<times> string) list \<Rightarrow> (string \<times> string) list" where
  "setAttr k v [] = [(k, v)]"
| "setAttr k v ((k', v') # kvs) = (if k' = k then (k, v) # kvs else (k', v') # setAttr k v kvs)"

fun setAttribute :: "string \<Rightarrow> string \<Rightarrow> xnode \<Rightarrow> xnode" where
  "setAttribute k v (Element t a cs) = Element t (setAttr k v a) cs"
| "setAttribute k v (Other s) = Other s"

fun removeAttribute :: "string \<Rightarrow> xnode \<Rightarrow> xnode" where
  "removeAttribute k (Element t a cs) = Element t (filter (\<lambda>kv. fst kv \<noteq> k) a) cs"
| "removeAttribute k (Other s) = Other s"

fun appendChildren :: "xnode list \<Rightarrow> xnode \<Rightarrow> xnode" where
  "appendChildren ns (Element t a cs) = Element t a (cs @ ns)"
| "appendChildren ns (Other s) = Other s"

text \<open>The elements of a subtree in document order, the root first.\<close>

fun subtree :: "xnode \<Rightarrow> xnode list" where
  "subtree (Element t a cs) = Element t a cs # concat (map subtree cs)"
| "subtree (Other s) = []"

definition elements :: "document \<Rightarrow> xnode list" where
  "elements d = concat (map subtree d)"

definition descendants :: "xnode \<Rightarrow> xnode list" where
  "descendants el = elements (childNodes el)"

text \<open>
  \<^verbatim>\<open>doc.querySelectorAll(sel)\<close> for a selector without combinators, given as
  a predicate on one element, and \<^verbatim>\<open>doc.querySelector(sel)\<close>.
\<close>

definition querySelectorAll :: "(xnode \<Rightarrow> bool) \<Rightarrow> document \<Rightarrow> xnode list" where
  "querySelectorAll sel d = filter sel (elements d)"

definition querySelector :: "(xnode \<Rightarrow> bool) \<Rightarrow> document \<Rightarrow> xnode option" where
  "querySelector sel d = List.find sel (elements d)"

text \<open>
  A change made to the element that \<^verbatim>\<open>querySelector\<close> returned: the first
  element in document order that matches is replaced by its image.
\<close>

fun modFirstN :: "(xnode \<Rightarrow> bool) \<Rightarrow> (xnode \<Rightarrow> xnode) \<Rightarrow> xnode \<Rightarrow> xnode option"
  and modFirstL :: "(xnode \<Rightarrow> bool) \<Rightarrow> (xnode \<Rightarrow> xnode) \<Rightarrow> xnode list \<Rightarrow> xnode list option" where
  "modFirstN sel f (Other s) = None"
| "modFirstN sel f (Element t a cs) =
     (if sel (Element t a cs) then Some (f (Element t a cs))
      else map_option (Element t a) (modFirstL sel f cs))"
| "modFirstL sel f [] = None"
| "modFirstL sel f (x # xs) =
     (case modFirstN sel f x of
        Some x' \<Rightarrow> Some (x' # xs)
      | None \<Rightarrow> map_option ((#) x) (modFirstL sel f xs))"

definition modifyFirst :: "(xnode \<Rightarrow> bool) \<Rightarrow> (xnode \<Rightarrow> xnode) \<Rightarrow> document \<Rightarrow> document" where
  "modifyFirst sel f d = (case modFirstL sel f d of Some d' \<Rightarrow> d' | None \<Rightarrow> d)"

text \<open>The selectors of the source.\<close>

definition sel_svg :: "xnode \<Rightarrow> bool" where
  "sel_svg el = (isElement el \<and> localName el = ''svg'')"

definition sel_g_data_stroke :: "xnode \<Rightarrow> bool" where
  "sel_g_data_stroke el = (isElement el \<and> localName el = ''g'' \<and> hasAttribute el ''data-stroke'')"

definition sel_id :: "xnode \<Rightarrow> bool" where
  "sel_id el = (isElement el \<and> hasAttribute el ''id'')"

section \<open>Numbers and patterns\<close>

definition isDigit :: "char \<Rightarrow> bool" where
  "isDigit c = (c \<in> set ''0123456789'')"

text \<open>White space that \<^verbatim>\<open>parseInt\<close> skips, within ASCII.\<close>

definition isWhite :: "char \<Rightarrow> bool" where
  "isWhite c = (c \<in> {CHR '' '', CHR 0x09, CHR 0x0A, CHR 0x0B, CHR 0x0C, CHR 0x0D})"

definition digitsVal :: "string \<Rightarrow> nat" where
  "digitsVal ds = foldl (\<lambda>n c. 10 * n + (of_char c - 48)) 0 ds"

text \<open>
  \<^verbatim>\<open>parseInt(s, 10)\<close>: leading white space, an optional sign, the longest run
  of digits; \<open>None\<close> is NaN. Integers are exact (no rounding to a double).
\<close>

definition parseInt :: "string \<Rightarrow> int option" where
  "parseInt s =
     (let t = dropWhile isWhite s;
          neg = (t \<noteq> [] \<and> hd t = CHR ''-'');
          u = (if t \<noteq> [] \<and> (hd t = CHR ''-'' \<or> hd t = CHR ''+'') then tl t else t);
          ds = takeWhile isDigit u
      in if ds = [] then None
         else Some (if neg then - int (digitsVal ds) else int (digitsVal ds)))"

text \<open>
  \<^verbatim>\<open>id.match(/-s(\d+)$/)\<close>: the identifier ends in \<^verbatim>\<open>-s\<close> and a run of
  digits; the result is the captured run.
\<close>

definition matchStrokeId :: "string \<Rightarrow> string option" where
  "matchStrokeId ident =
     (let r = rev ident; ds = takeWhile isDigit r; rest = dropWhile isDigit r
      in if ds \<noteq> [] \<and> take 2 rest = ''s-'' then Some (rev ds) else None)"

text \<open>
  The pattern of \<^verbatim>\<open>countStrokes\<close> is written \<^verbatim>\<open>/-s(\\d+)$/\<close> in a regular
  expression literal: \<^verbatim>\<open>-s\<close>, a backslash, and a run of the letter d up to
  the end.
\<close>

definition matchBackslashD :: "string \<Rightarrow> string option" where
  "matchBackslashD ident =
     (let r = rev ident;
          ds = takeWhile (\<lambda>c. c = CHR ''d'') r;
          rest = dropWhile (\<lambda>c. c = CHR ''d'') r
      in if ds \<noteq> [] \<and> take 3 rest = [CHR 0x5C, CHR ''s'', CHR ''-'']
         then Some (CHR 0x5C # ds) else None)"

text \<open>\<^verbatim>\<open>Math.max\<close> on numbers that may be NaN (\<open>None\<close>).\<close>

fun mathMax :: "int option \<Rightarrow> int option \<Rightarrow> int option" where
  "mathMax (Some a) (Some b) = Some (max a b)"
| "mathMax _ _ = None"

text \<open>\<^verbatim>\<open>x || d\<close> for a number: NaN and 0 are falsy.\<close>

fun numOr :: "int option \<Rightarrow> int \<Rightarrow> int" where
  "numOr None d = d"
| "numOr (Some n) d = (if n = 0 then d else n)"

text \<open>\<^verbatim>\<open>s || d\<close> for an attribute value: null and the empty string are falsy.\<close>

fun strOr :: "string option \<Rightarrow> string \<Rightarrow> string" where
  "strOr None d = d"
| "strOr (Some v) d = (if v = [] then d else v)"

section \<open>rangeStroke.ts: countStrokes\<close>

definition countStrokes_step :: "int option \<Rightarrow> xnode \<Rightarrow> int option" where
  "countStrokes_step mx el =
     (case matchBackslashD (strOr (getAttribute el ''id'') []) of
        Some m1 \<Rightarrow> mathMax mx (parseInt m1)
      | None \<Rightarrow> mx)"

definition countStrokes :: "platform \<Rightarrow> string \<Rightarrow> int" where
  "countStrokes P svgText =
     (case parseFromString P svgText of
        None \<Rightarrow> 1
      | Some doc \<Rightarrow>
          (let baked = length (querySelectorAll sel_g_data_stroke doc)
           in if baked > 0 then int baked
              else numOr (foldl countStrokes_step (Some 0) (querySelectorAll sel_id doc)) 1))"

section \<open>The operations on documents\<close>

text \<open>
  \<^verbatim>\<open>composite(svgA, svgB)\<close>: the children of B's first \<^verbatim>\<open>svg\<close> element are
  cloned and appended to A's. Nothing catches an exception of the parser.
\<close>

definition composite :: "platform \<Rightarrow> string \<Rightarrow> string \<Rightarrow> error + string" where
  "composite P svgA svgB =
     (if svgA = svgB then Inr svgA
      else case parseFromString P svgA of
        None \<Rightarrow> Inl ParserException
      | Some a \<Rightarrow>
       (case parseFromString P svgB of
          None \<Rightarrow> Inl ParserException
        | Some b \<Rightarrow>
         (case (querySelector sel_svg a, querySelector sel_svg b) of
            (Some out, Some inb) \<Rightarrow>
              Inr (serializeToString P (modifyFirst sel_svg (appendChildren (children inb)) a))
          | _ \<Rightarrow> Inr svgA)))"

text \<open>\<^verbatim>\<open>x || d\<close>, \<^verbatim>\<open>Math.min\<close>, \<^verbatim>\<open>Math.max\<close> and the comparison on numbers.\<close>

fun jsOr :: "jsnum \<Rightarrow> jsnum \<Rightarrow> jsnum" where
  "jsOr NaN d = d"
| "jsOr (Fin r) d = (if r = 0 then d else Fin r)"
| "jsOr x d = x"

fun jsLe :: "jsnum \<Rightarrow> jsnum \<Rightarrow> bool" where
  "jsLe NaN y = False"
| "jsLe x NaN = False"
| "jsLe NegInf y = True"
| "jsLe x PosInf = True"
| "jsLe (Fin a) (Fin b) = (a \<le> b)"
| "jsLe x y = False"

definition jsMin :: "jsnum \<Rightarrow> jsnum \<Rightarrow> jsnum" where
  "jsMin x y = (if x = NaN \<or> y = NaN then NaN else if jsLe x y then x else y)"

definition jsMax :: "jsnum \<Rightarrow> jsnum \<Rightarrow> jsnum" where
  "jsMax x y = (if x = NaN \<or> y = NaN then NaN else if jsLe x y then y else x)"

definition toLowerChar :: "char \<Rightarrow> char" where
  "toLowerChar c =
     (let n = (of_char c :: nat) in if 65 \<le> n \<and> n \<le> 90 then char_of (n + 32) else c)"

definition toLowerCase :: "string \<Rightarrow> string" where
  "toLowerCase s = map toLowerChar s"

text \<open>
  A change made to every element that a \<^verbatim>\<open>querySelectorAll\<close> returned, for
  changes that touch the attributes of the element only.
\<close>

fun mapWhere :: "(xnode \<Rightarrow> bool) \<Rightarrow> (xnode \<Rightarrow> xnode) \<Rightarrow> xnode \<Rightarrow> xnode" where
  "mapWhere sel f (Element t a cs) =
     (if sel (Element t a cs) then f (Element t a (map (mapWhere sel f) cs))
      else Element t a (map (mapWhere sel f) cs))"
| "mapWhere sel f (Other s) = Other s"

definition forEachWhere :: "(xnode \<Rightarrow> bool) \<Rightarrow> (xnode \<Rightarrow> xnode) \<Rightarrow> document \<Rightarrow> document" where
  "forEachWhere sel f d = map (mapWhere sel f) d"

definition sel_path_polyline_line :: "xnode \<Rightarrow> bool" where
  "sel_path_polyline_line el =
     (isElement el \<and> localName el \<in> {''path'', ''polyline'', ''line''})"

text \<open>
  \<^verbatim>\<open>forceStrokeColor(svgText, color)\<close>: a style rule is inserted before the
  first child of the \<^verbatim>\<open>svg\<close> element and the same properties are set on
  every path, polyline and line. The whole body is inside \<^verbatim>\<open>try\<close>, and
  the \<^verbatim>\<open>catch\<close> returns the input.
\<close>

definition styleRule :: "string \<Rightarrow> string" where
  "styleRule color = concat
     [[CHR 0x0A], ''      path, line, polyline {'',
      [CHR 0x0A], ''        stroke: '', color, '' !important;'',
      [CHR 0x0A], ''        stroke-width: 3 !important;'',
      [CHR 0x0A], ''        stroke-linecap: round !important;'',
      [CHR 0x0A], ''        stroke-linejoin: round !important;'',
      [CHR 0x0A], ''        fill: none !important;'',
      [CHR 0x0A], ''        vector-effect: non-scaling-stroke;'',
      [CHR 0x0A], ''      }'',
      [CHR 0x0A], ''    '']"

fun insertFirst :: "xnode \<Rightarrow> xnode \<Rightarrow> xnode" where
  "insertFirst n (Element t a cs) = Element t a (n # cs)"
| "insertFirst n (Other s) = Other s"

definition hardSet :: "string \<Rightarrow> xnode \<Rightarrow> xnode" where
  "hardSet color el =
     setAttribute ''vector-effect'' ''non-scaling-stroke''
      (setAttribute ''fill'' ''none''
        (setAttribute ''stroke-linejoin'' ''round''
          (setAttribute ''stroke-linecap'' ''round''
            (setAttribute ''stroke-width'' ''3''
              (setAttribute ''stroke'' color el)))))"

definition forceStrokeColor_try :: "platform \<Rightarrow> string \<Rightarrow> string \<Rightarrow> error + string" where
  "forceStrokeColor_try P svgText color =
     (case parseFromString P svgText of
        None \<Rightarrow> Inl ParserException
      | Some doc \<Rightarrow>
         (case querySelector sel_svg doc of
            None \<Rightarrow> Inr svgText
          | Some svg \<Rightarrow>
              Inr (serializeToString P
                (forEachWhere sel_path_polyline_line (hardSet color)
                  (modifyFirst sel_svg
                    (insertFirst (Element ''style'' [] [Other (styleRule color)])) doc)))))"

definition forceStrokeColor :: "platform \<Rightarrow> string \<Rightarrow> string \<Rightarrow> error + string" where
  "forceStrokeColor P svgText color =
     (case forceStrokeColor_try P svgText color of
        Inl e \<Rightarrow> Inr svgText
      | Inr r \<Rightarrow> Inr r)"

text \<open>
  \<^verbatim>\<open>applyTransform(svgText, x, y, sx, sy)\<close>: the element children of the
  \<^verbatim>\<open>svg\<close> element other than \<^verbatim>\<open>style\<close> and \<^verbatim>\<open>defs\<close> move into a new
  group, which is appended. The body is inside \<^verbatim>\<open>try\<close> as well.
\<close>

definition transformValue :: "platform \<Rightarrow> jsnum \<Rightarrow> jsnum \<Rightarrow> jsnum \<Rightarrow> jsnum \<Rightarrow> string" where
  "transformValue P x y sx sy =
     ''translate('' @ numberToString P (jsOr x (Fin 0)) @ '','' @ numberToString P (jsOr y (Fin 0))
     @ '') scale('' @ numberToString P (jsOr sx (Fin 1)) @ '','' @ numberToString P (jsOr sy (Fin 1))
     @ '')''"

definition keepAtRoot :: "xnode \<Rightarrow> bool" where
  "keepAtRoot c = (toLowerCase (tagName c) \<in> {''style'', ''defs''})"

fun wrapChildren :: "string \<Rightarrow> xnode \<Rightarrow> xnode" where
  "wrapChildren tr (Element t a cs) =
     Element t a
       (filter (\<lambda>c. \<not> isElement c \<or> keepAtRoot c) cs
        @ [Element ''g'' [(''transform'', tr)] (filter (\<lambda>c. isElement c \<and> \<not> keepAtRoot c) cs)])"
| "wrapChildren tr (Other s) = Other s"

definition applyTransform_try ::
  "platform \<Rightarrow> string \<Rightarrow> jsnum \<Rightarrow> jsnum \<Rightarrow> jsnum \<Rightarrow> jsnum \<Rightarrow> error + string" where
  "applyTransform_try P svgText x y sx sy =
     (case parseFromString P svgText of
        None \<Rightarrow> Inl ParserException
      | Some doc \<Rightarrow>
         (case querySelector sel_svg doc of
            None \<Rightarrow> Inr svgText
          | Some svg \<Rightarrow>
              Inr (serializeToString P
                (modifyFirst sel_svg (wrapChildren (transformValue P x y sx sy)) doc))))"

definition applyTransform ::
  "platform \<Rightarrow> string \<Rightarrow> jsnum \<Rightarrow> jsnum \<Rightarrow> jsnum \<Rightarrow> jsnum \<Rightarrow> error + string" where
  "applyTransform P svgText x y sx sy =
     (case applyTransform_try P svgText x y sx sy of
        Inl e \<Rightarrow> Inr svgText
      | Inr r \<Rightarrow> Inr r)"

text \<open>
  \<^verbatim>\<open>compositeAlpha(svgA, svgB, alphaA, alphaB, swap)\<close>. The element children
  of A's \<^verbatim>\<open>svg\<close> element move into one group, clones of those of B's into
  a second, every child node of A's element is removed and the two groups
  are appended in the order that \<^verbatim>\<open>swap\<close> selects.
\<close>

definition clamp :: "jsnum \<Rightarrow> jsnum" where
  "clamp v = jsMax (Fin 0) (jsMin (Fin 1) v)"

definition alphaGroup :: "platform \<Rightarrow> jsnum \<Rightarrow> xnode list \<Rightarrow> xnode" where
  "alphaGroup P alpha cs = Element ''g'' [(''opacity'', numberToString P (clamp alpha))] cs"

fun setChildNodes :: "xnode list \<Rightarrow> xnode \<Rightarrow> xnode" where
  "setChildNodes ns (Element t a cs) = Element t a ns"
| "setChildNodes ns (Other s) = Other s"

definition compositeAlphaDoc ::
  "platform \<Rightarrow> document \<Rightarrow> document \<Rightarrow> jsnum \<Rightarrow> jsnum \<Rightarrow> bool \<Rightarrow> document option" where
  "compositeAlphaDoc P aDoc bDoc alphaA alphaB swap =
     (case (querySelector sel_svg aDoc, querySelector sel_svg bDoc) of
        (Some out, Some inb) \<Rightarrow>
          (let gA = alphaGroup P alphaA (children out);
               gB = alphaGroup P alphaB (children inb)
           in Some (modifyFirst sel_svg (setChildNodes (if swap then [gB, gA] else [gA, gB])) aDoc))
      | _ \<Rightarrow> None)"

definition compositeAlpha ::
  "platform \<Rightarrow> string \<Rightarrow> string \<Rightarrow> jsnum \<Rightarrow> jsnum \<Rightarrow> bool \<Rightarrow> error + string" where
  "compositeAlpha P svgA svgB alphaA alphaB swap =
     (case parseFromString P svgA of
        None \<Rightarrow> Inl ParserException
      | Some aDoc \<Rightarrow>
         (case parseFromString P svgB of
            None \<Rightarrow> Inl ParserException
          | Some bDoc \<Rightarrow>
             (case compositeAlphaDoc P aDoc bDoc alphaA alphaB swap of
                None \<Rightarrow> Inr svgA
              | Some d \<Rightarrow> Inr (serializeToString P d))))"

section \<open>rangeStroke.ts: bakeStrokes and applyRangeBaked\<close>

text \<open>
  \<^verbatim>\<open>String(n)\<close> for a stroke index: its decimal digits (the form that
  \<^verbatim>\<open>String\<close> gives to an integer below \<open>10\<^sup>2\<^sup>1\<close>).
\<close>

fun showNat :: "nat \<Rightarrow> string" where
  "showNat n =
     (if n < 10 then [char_of (48 + n)] else showNat (n div 10) @ [char_of (48 + n mod 10)])"

declare showNat.simps [simp del]

definition startsWith :: "string \<Rightarrow> string \<Rightarrow> bool" where
  "startsWith p v = (take (length p) v = p)"

text \<open>
  The selector of the decoration: an identifier that starts with
  \<^verbatim>\<open>kvg:StrokeNumbers_\<close>, \<^verbatim>\<open>kvg:Numbers_\<close>, \<^verbatim>\<open>kvg:Grid_\<close> or
  \<^verbatim>\<open>kvg:Guideline_\<close>.
\<close>

definition sel_noise :: "xnode \<Rightarrow> bool" where
  "sel_noise el =
     (isElement el \<and>
      (case getAttribute el ''id'' of
         None \<Rightarrow> False
       | Some v \<Rightarrow> startsWith ''kvg:StrokeNumbers_'' v \<or> startsWith ''kvg:Numbers_'' v \<or>
                  startsWith ''kvg:Grid_'' v \<or> startsWith ''kvg:Guideline_'' v))"

definition sel_strokePaths :: "xnode \<Rightarrow> bool" where
  "sel_strokePaths el =
     (isElement el \<and>
      (case getAttribute el ''id'' of None \<Rightarrow> False | Some v \<Rightarrow> startsWith ''kvg:StrokePaths_'' v))"

text \<open>\<^verbatim>\<open>querySelectorAll(sel).forEach(n => n.remove())\<close>.\<close>

fun removeN :: "(xnode \<Rightarrow> bool) \<Rightarrow> xnode \<Rightarrow> xnode"
  and removeL :: "(xnode \<Rightarrow> bool) \<Rightarrow> xnode list \<Rightarrow> xnode list" where
  "removeN sel (Element t a cs) = Element t a (removeL sel cs)"
| "removeN sel (Other s) = Other s"
| "removeL sel [] = []"
| "removeL sel (x # xs) = (if sel x then removeL sel xs else removeN sel x # removeL sel xs)"

definition normalizeSvg :: "xnode \<Rightarrow> xnode" where
  "normalizeSvg svg =
     (let s1 = removeAttribute ''height'' (removeAttribute ''width'' svg);
          s2 = setAttribute ''height'' ''100%'' (setAttribute ''width'' ''100%'' s1);
          s3 = setAttribute ''viewBox'' (strOr (getAttribute s2 ''viewBox'') ''0 0 109 109'') s2
      in setAttribute ''preserveAspectRatio'' ''xMidYMid meet''
           (setAttribute ''vector-effect'' ''non-scaling-stroke'' s3))"

text \<open>The carriers: every element whose identifier ends in \<^verbatim>\<open>-sN\<close>, with N.\<close>

definition carrierOf :: "xnode \<Rightarrow> (nat \<times> xnode) option" where
  "carrierOf el =
     (case matchStrokeId (strOr (getAttribute el ''id'') []) of
        None \<Rightarrow> None
      | Some m1 \<Rightarrow> Some (digitsVal m1, el))"

definition carriers :: "document \<Rightarrow> (nat \<times> xnode) list" where
  "carriers doc = List.map_filter carrierOf (querySelectorAll sel_id doc)"

definition DRAW_TAGS :: "string set" where
  "DRAW_TAGS = {''path'', ''polyline'', ''line'', ''circle'', ''ellipse'', ''rect'', ''polygon''}"

definition isDrawable :: "xnode \<Rightarrow> bool" where
  "isDrawable el = (toLowerCase (tagName el) \<in> DRAW_TAGS)"

text \<open>
  \<^verbatim>\<open>pushAllDrawables(root, into)\<close> appends a clone of every drawable element
  of the subtree of \<open>root\<close>, the root included, in document order.
\<close>

definition drawables :: "xnode \<Rightarrow> xnode list" where
  "drawables el = filter isDrawable (subtree el)"

text \<open>
  The bucket is a \<^verbatim>\<open>Map\<close> from the index to the group that collects the
  clones; it keeps the order in which the indices were first seen.
\<close>

fun bucketAdd :: "nat \<Rightarrow> xnode list \<Rightarrow> (nat \<times> xnode list) list \<Rightarrow> (nat \<times> xnode list) list" where
  "bucketAdd n ds [] = [(n, ds)]"
| "bucketAdd n ds ((k, v) # b) = (if k = n then (k, v @ ds) # b else (k, v) # bucketAdd n ds b)"

definition bucketOf :: "(nat \<times> xnode) list \<Rightarrow> (nat \<times> xnode list) list" where
  "bucketOf cs = foldl (\<lambda>b c. bucketAdd (fst c) (drawables (snd c)) b) [] cs"

definition strokeGroup :: "nat \<Rightarrow> xnode list \<Rightarrow> xnode" where
  "strokeGroup n ds = Element ''g'' [(''data-stroke'', showNat n)] ds"

text \<open>
  The loop over the sorted indices: a group with at least one child is
  appended to the output and raises the count.
\<close>

fun emitLoop :: "(nat \<times> xnode list) list \<Rightarrow> nat list \<Rightarrow> xnode list \<times> nat \<Rightarrow> xnode list \<times> nat" where
  "emitLoop b [] acc = acc"
| "emitLoop b (n # ns) (out, count) =
     (case map_of b n of
        None \<Rightarrow> emitLoop b ns (out, count)
      | Some ds \<Rightarrow>
          (if length ds > 0 then emitLoop b ns (out @ [strokeGroup n ds], max count n)
           else emitLoop b ns (out, count)))"

definition bakedGroupOf :: "document \<Rightarrow> xnode \<times> nat" where
  "bakedGroupOf doc =
     (let bucket = bucketOf (carriers doc);
          nums = sort (map fst bucket);
          (out, count) = emitLoop bucket nums ([], 0)
      in (Element ''g'' [(''id'', ''__baked_strokes__'')] out,
          if count = 0 then length nums else count))"

text \<open>
  \<^verbatim>\<open>bakeStrokes\<close> on the parsed document; \<open>None\<close> when there is no
  \<^verbatim>\<open>svg\<close> element once the decoration is removed.
\<close>

definition bakeStrokesDoc :: "document \<Rightarrow> (document \<times> nat) option" where
  "bakeStrokesDoc doc0 =
     (let doc1 = removeL sel_noise doc0
      in case querySelector sel_svg doc1 of
           None \<Rightarrow> None
         | Some svg \<Rightarrow>
            (let doc2 = modifyFirst sel_svg normalizeSvg doc1;
                 (bakedGroup, count) = bakedGroupOf doc2;
                 doc3 = modifyFirst sel_strokePaths (setAttribute ''display'' ''none'') doc2
             in Some (modifyFirst sel_svg (appendChildren [bakedGroup]) doc3, count)))"

definition bakeStrokes :: "platform \<Rightarrow> string \<Rightarrow> error + (string \<times> nat)" where
  "bakeStrokes P svgText =
     (case parseFromString P svgText of
        None \<Rightarrow> Inl ParserException
      | Some doc \<Rightarrow>
         (case bakeStrokesDoc doc of
            None \<Rightarrow> Inr (svgText, 0)
          | Some (doc', count) \<Rightarrow> Inr (serializeToString P doc', count)))"

text \<open>
  \<^verbatim>\<open>applyRangeBaked(svgText, start, end)\<close>: every \<^verbatim>\<open>g[data-stroke]\<close> below the
  \<^verbatim>\<open>svg\<close> element is hidden, and then shown again when its index lies
  between the smaller and the larger bound.
\<close>

fun numOfInt :: "int option \<Rightarrow> jsnum" where
  "numOfInt None = NaN"
| "numOfInt (Some i) = Fin (real_of_int i)"

definition strokeIndex :: "xnode \<Rightarrow> jsnum" where
  "strokeIndex g = numOfInt (parseInt (strOr (getAttribute g ''data-stroke'') ''0''))"

definition inRange :: "jsnum \<Rightarrow> jsnum \<Rightarrow> xnode \<Rightarrow> bool" where
  "inRange s e g = (jsLe s (strokeIndex g) \<and> jsLe (strokeIndex g) e)"

fun onDescendants :: "(xnode \<Rightarrow> xnode) \<Rightarrow> xnode \<Rightarrow> xnode" where
  "onDescendants f (Element t a cs) = Element t a (map f cs)"
| "onDescendants f (Other s) = Other s"

definition hideAll :: "xnode \<Rightarrow> xnode" where
  "hideAll svg = onDescendants (mapWhere sel_g_data_stroke (setAttribute ''display'' ''none'')) svg"

definition rangeStep :: "jsnum \<Rightarrow> jsnum \<Rightarrow> xnode \<Rightarrow> xnode" where
  "rangeStep s e g = (if inRange s e g then removeAttribute ''display'' g else g)"

definition showInRange :: "jsnum \<Rightarrow> jsnum \<Rightarrow> xnode \<Rightarrow> xnode" where
  "showInRange s e svg = onDescendants (mapWhere sel_g_data_stroke (rangeStep s e)) svg"

definition applyRangeBakedDoc :: "jsnum \<Rightarrow> jsnum \<Rightarrow> document \<Rightarrow> document option" where
  "applyRangeBakedDoc start0 end0 doc =
     (case querySelector sel_svg doc of
        None \<Rightarrow> None
      | Some svg \<Rightarrow>
          (let s = jsMin start0 end0; e = jsMax start0 end0
           in Some (modifyFirst sel_svg (showInRange s e) (modifyFirst sel_svg hideAll doc))))"

definition applyRangeBaked :: "platform \<Rightarrow> string \<Rightarrow> jsnum \<Rightarrow> jsnum \<Rightarrow> error + string" where
  "applyRangeBaked P svgText start0 end0 =
     (case parseFromString P svgText of
        None \<Rightarrow> Inl ParserException
      | Some doc \<Rightarrow>
         (case applyRangeBakedDoc start0 end0 doc of
            None \<Rightarrow> Inr svgText
          | Some doc' \<Rightarrow> Inr (serializeToString P doc')))"














section \<open>The glyph source\<close>

text \<open>
  The character of a glyph node is a JavaScript string, a sequence of 16-bit
  code units. \<^verbatim>\<open>ch.codePointAt(0)\<close> is undefined on the empty string,
  combines a leading surrogate pair and is the first code unit otherwise.
\<close>

type_synonym jsstring = "16 word list"

definition isHighSurrogate :: "16 word \<Rightarrow> bool" where
  "isHighSurrogate u = (0xD800 \<le> unat u \<and> unat u \<le> 0xDBFF)"

definition isLowSurrogate :: "16 word \<Rightarrow> bool" where
  "isLowSurrogate u = (0xDC00 \<le> unat u \<and> unat u \<le> 0xDFFF)"

definition pairValue :: "16 word \<Rightarrow> 16 word \<Rightarrow> nat" where
  "pairValue h l = (unat h - 0xD800) * 0x400 + (unat l - 0xDC00) + 0x10000"

fun codePointAt0 :: "jsstring \<Rightarrow> nat option" where
  "codePointAt0 [] = None"
| "codePointAt0 [u] = Some (unat u)"
| "codePointAt0 (u # l # rest) =
     (if isHighSurrogate u \<and> isLowSurrogate l then Some (pairValue u l) else Some (unat u))"


fun toString16 :: "nat \<Rightarrow> string" where
  "toString16 n =
     (if n < 16 then [''0123456789abcdef'' ! n]
      else toString16 (n div 16) @ [''0123456789abcdef'' ! (n mod 16)])"

declare toString16.simps [simp del]

definition pad5 :: "string \<Rightarrow> string" where
  "pad5 hex = replicate (5 - length hex) CHR ''0'' @ hex"

text \<open>\<^verbatim>\<open>code5\<close> throws when the code point is undefined or 0.\<close>

definition code5 :: "jsstring \<Rightarrow> error + string" where
  "code5 ch =
     (case codePointAt0 ch of
        None \<Rightarrow> Inl InvalidChar
      | Some cp \<Rightarrow> if cp = 0 then Inl InvalidChar else Inr (pad5 (toLowerCase (toString16 cp))))"

definition githubSvgUrl :: "string \<Rightarrow> string" where
  "githubSvgUrl c5 =
     ''https://raw.githubusercontent.com/KanjiVG/kanjivg/master/kanji/'' @ c5 @ ''.svg''"

definition localSvgUrl :: "string \<Rightarrow> string" where
  "localSvgUrl c5 = ''/kanji/'' @ c5 @ ''.svg''"

text \<open>
  The network is the environment. It answers the k-th request of the
  session, given the address and the time in milliseconds after which the
  request is aborted: the fetch rejects (network error, abort), or a response
  arrives that is not OK, or one that is OK and whose text can or cannot be
  read. The state holds the two caches and the requests made so far.
\<close>

datatype fetchOutcome = FetchRejects | NotOk | Body string | BodyRejects

type_synonym network = "nat \<Rightarrow> string \<Rightarrow> nat \<Rightarrow> fetchOutcome"

record glyphState =
  svgCache :: "string \<rightharpoonup> string"
  preparedCache :: "jsstring \<times> bool \<rightharpoonup> string"
  requests :: "(string \<times> nat) list"

definition tryFetch :: "network \<Rightarrow> glyphState \<Rightarrow> string \<Rightarrow> nat \<Rightarrow> string option \<times> glyphState" where
  "tryFetch net st url timeoutMs =
     ((case net (length (requests st)) url timeoutMs of
         Body b \<Rightarrow> Some b
       | _ \<Rightarrow> None),
      st\<lparr>requests := requests st @ [(url, timeoutMs)]\<rparr>)"

text \<open>\<^verbatim>\<open>if (gh)\<close>: null and the empty text are falsy.\<close>

fun truthy :: "string option \<Rightarrow> bool" where
  "truthy None = False"
| "truthy (Some v) = (v \<noteq> [])"

definition fetchKanjiVGSvg :: "network \<Rightarrow> glyphState \<Rightarrow> jsstring \<Rightarrow> (error + string) \<times> glyphState" where
  "fetchKanjiVGSvg net st ch =
     (case code5 ch of
        Inl e \<Rightarrow> (Inl e, st)
      | Inr c5 \<Rightarrow>
         (case svgCache st c5 of
            Some v \<Rightarrow> (Inr v, st)
          | None \<Rightarrow>
             (let (gh, st1) = tryFetch net st (githubSvgUrl c5) 6000
              in if truthy gh
                 then (Inr (the gh), st1\<lparr>svgCache := (svgCache st1)(c5 \<mapsto> the gh)\<rparr>)
                 else
                  (let (loc, st2) = tryFetch net st1 (localSvgUrl c5) 6000
                   in if truthy loc
                      then (Inr (the loc), st2\<lparr>svgCache := (svgCache st2)(c5 \<mapsto> the loc)\<rparr>)
                      else (Inl (NotFound c5), st2)))))"













text \<open>What a request yields to \<^verbatim>\<open>tryFetch\<close>: the text of an OK response, or null.\<close>

definition fetched :: "fetchOutcome \<Rightarrow> string option" where
  "fetched r = (case r of Body b \<Rightarrow> Some b | _ \<Rightarrow> None)"

section \<open>The evaluation of a graph\<close>

text \<open>
  A node carries its kind and the parameters of the kind; a parameter that
  is not set is \<open>None\<close>. An edge leads from its source to a port of its
  target.
\<close>

datatype nodeData =
    KanjiData "jsstring option"
  | RangeData "jsnum option" "jsnum option"
  | TransformData "jsnum option" "jsnum option" "jsnum option" "jsnum option"
  | CompositeData "jsnum option" "jsnum option" "bool option"
  | OtherData

record flowNode =
  nodeId :: string
  nodeData :: nodeData

record flowEdge =
  source :: string
  target :: string
  targetHandle :: "string option"

record graph =
  nodes :: "flowNode list"
  edges :: "flowEdge list"

text \<open>
  The result of a promise: resolved with a text or null, rejected, or never
  settled.
\<close>

datatype outcome = Resolved "string option" | Rejected error | Unsettled

text \<open>
  The glyph source during one pass: what \<^verbatim>\<open>getPreparedSvg(ch, true)\<close> yields
  for a character, and what the worker yields as the fallback (the text it
  posts, null when it posts null or cannot be called). The fetches of a pass
  run side by side; the pass is modelled for a source that answers a
  character the same way throughout.
\<close>

record passEnv =
  prepared :: "jsstring \<Rightarrow> error + string"
  callWorker :: "jsstring \<Rightarrow> string option"

fun ofResult :: "error + string \<Rightarrow> outcome" where
  "ofResult (Inl e) = Rejected e"
| "ofResult (Inr r) = Resolved (Some r)"

text \<open>\<^verbatim>\<open>Number(v)\<close>, \<^verbatim>\<open>v || d\<close> and \<^verbatim>\<open>v ?? d\<close> on a parameter.\<close>

fun toNumber :: "jsnum option \<Rightarrow> jsnum" where
  "toNumber None = NaN"
| "toNumber (Some v) = v"

fun paramOr :: "jsnum option \<Rightarrow> jsnum \<Rightarrow> jsnum" where
  "paramOr None d = d"
| "paramOr (Some v) d = jsOr v d"

fun paramNullish :: "jsnum option \<Rightarrow> jsnum \<Rightarrow> jsnum" where
  "paramNullish None d = d"
| "paramNullish (Some v) d = v"

fun toBool :: "bool option \<Rightarrow> bool" where
  "toBool None = False"
| "toBool (Some b) = b"

definition natNum :: "nat \<Rightarrow> jsnum" where
  "natNum n = Fin (real n)"

definition intNum :: "int \<Rightarrow> jsnum" where
  "intNum i = Fin (real_of_int i)"

text \<open>\<^verbatim>\<open>byId[id]\<close>: of two nodes with one identifier the later one counts.\<close>

definition byId :: "graph \<Rightarrow> string \<Rightarrow> flowNode option" where
  "byId g i = map_of (rev (map (\<lambda>n. (nodeId n, n)) (nodes g))) i"

definition ins :: "graph \<Rightarrow> string \<Rightarrow> flowEdge list" where
  "ins g i = filter (\<lambda>e. target e = i) (edges g)"


subsection \<open>The pass of the application: evalNode\<close>

text \<open>
  \<^verbatim>\<open>getIn(handle)\<close> of \<^verbatim>\<open>evalNode\<close>: the first incoming edge, or the first
  one into the named port, and the promise that the memo table holds for its
  source.
\<close>

definition getIn :: "graph \<Rightarrow> (string \<rightharpoonup> outcome) \<Rightarrow> string \<Rightarrow> string option \<Rightarrow> outcome" where
  "getIn g m i handle =
     (case List.find (\<lambda>e. case handle of Some h \<Rightarrow> targetHandle e = Some h | None \<Rightarrow> True) (ins g i) of
        None \<Rightarrow> Resolved None
      | Some e \<Rightarrow> (case m (source e) of Some r \<Rightarrow> r | None \<Rightarrow> Resolved None))"

definition kanjiBranch :: "passEnv \<Rightarrow> jsstring option \<Rightarrow> outcome" where
  "kanjiBranch env ch =
     (case ch of
        None \<Rightarrow> Resolved None
      | Some c \<Rightarrow>
          if c = [] then Resolved None
          else (case prepared env c of
                  Inr svg \<Rightarrow> Resolved (Some svg)
                | Inl e \<Rightarrow> Resolved (callWorker env c)))"

definition rangeBranch :: "platform \<Rightarrow> jsnum option \<Rightarrow> jsnum option \<Rightarrow> outcome \<Rightarrow> outcome" where
  "rangeBranch P start0 end0 input =
     (case input of
        Resolved v \<Rightarrow>
          if \<not> truthy v then Resolved None
          else (case bakeStrokes P (the v) of
                  Inl e \<Rightarrow> Rejected e
                | Inr (svg, count) \<Rightarrow>
                    (let c1 = jsOr (natNum count) (Fin 1);
                         s = jsMax (Fin 1) (jsMin (jsOr (toNumber start0) (Fin 1)) c1);
                         e = jsMax (Fin 1) (jsMin (jsOr (jsOr (toNumber end0) (natNum count)) (Fin 1)) c1)
                     in ofResult (applyRangeBaked P svg (jsMin s e) (jsMax s e))))
      | other \<Rightarrow> other)"

definition transformBranch ::
  "platform \<Rightarrow> jsnum option \<Rightarrow> jsnum option \<Rightarrow> jsnum option \<Rightarrow> jsnum option \<Rightarrow> outcome \<Rightarrow> outcome" where
  "transformBranch P x y sx sy input =
     (case input of
        Resolved v \<Rightarrow>
          if \<not> truthy v then Resolved None
          else ofResult (applyTransform P (the v)
                 (paramOr x (Fin 0)) (paramOr y (Fin 0)) (paramOr sx (Fin 1)) (paramOr sy (Fin 1)))
      | other \<Rightarrow> other)"

text \<open>
  The composite branch awaits port A and then port B; a rejected input
  rejects the node.
\<close>

definition compositeBranch ::
  "platform \<Rightarrow> jsnum option \<Rightarrow> jsnum option \<Rightarrow> bool option \<Rightarrow> outcome \<Rightarrow> outcome \<Rightarrow> outcome" where
  "compositeBranch P alphaA alphaB swap inA inB =
     (case inA of
        Resolved a \<Rightarrow>
         (case inB of
            Resolved b \<Rightarrow>
              if truthy a \<and> truthy b
              then ofResult (compositeAlpha P (the a) (the b)
                     (paramNullish alphaA (Fin 1)) (paramNullish alphaB (Fin 1)) (toBool swap))
              else if truthy a then Resolved a else Resolved b
          | other \<Rightarrow> other)
      | other \<Rightarrow> other)"

definition nodeBody :: "platform \<Rightarrow> passEnv \<Rightarrow> graph \<Rightarrow> flowNode \<Rightarrow> (string \<rightharpoonup> outcome) \<Rightarrow> outcome" where
  "nodeBody P env g n m =
     (case nodeData n of
        KanjiData ch \<Rightarrow> kanjiBranch env ch
      | RangeData s e \<Rightarrow> rangeBranch P s e (getIn g m (nodeId n) None)
      | TransformData x y sx sy \<Rightarrow> transformBranch P x y sx sy (getIn g m (nodeId n) None)
      | CompositeData aa ab sw \<Rightarrow>
          compositeBranch P aa ab sw (getIn g m (nodeId n) (Some ''A'')) (getIn g m (nodeId n) (Some ''B''))
      | OtherData \<Rightarrow> Resolved None)"

text \<open>
  \<^verbatim>\<open>evalNode\<close> first evaluates the source of every incoming edge that the
  memo table does not hold, each by a call of its own, and only then builds
  its own promise. All the recursion happens in these calls, before anything
  is awaited, and nothing bounds its depth. The first argument is the depth
  of recursion that is available: \<open>None\<close> says that it did not suffice.
\<close>

fun evalNode ::
    "nat \<Rightarrow> platform \<Rightarrow> passEnv \<Rightarrow> graph \<Rightarrow> string \<Rightarrow> (string \<rightharpoonup> outcome)
      \<Rightarrow> (outcome \<times> (string \<rightharpoonup> outcome)) option"
  and evalDeps ::
    "nat \<Rightarrow> platform \<Rightarrow> passEnv \<Rightarrow> graph \<Rightarrow> flowEdge list \<Rightarrow> (string \<rightharpoonup> outcome)
      \<Rightarrow> (string \<rightharpoonup> outcome) option" where
  "evalNode 0 P env g i m = None"
| "evalNode (Suc k) P env g i m =
     (case m i of
        Some r \<Rightarrow> Some (r, m)
      | None \<Rightarrow>
         (case byId g i of
            None \<Rightarrow> Some (Resolved None, m)
          | Some n \<Rightarrow>
             (case evalDeps k P env g (ins g i) m of
                None \<Rightarrow> None
              | Some m1 \<Rightarrow> Some (nodeBody P env g n m1, m1(i \<mapsto> nodeBody P env g n m1)))))"
| "evalDeps k P env g [] m = Some m"
| "evalDeps k P env g (e # es) m =
     (case m (source e) of
        Some r \<Rightarrow> evalDeps k P env g es m
      | None \<Rightarrow>
         (case evalNode k P env g (source e) m of
            None \<Rightarrow> None
          | Some (r, m') \<Rightarrow> evalDeps k P env g es (m'(source e \<mapsto> r))))"

subsection \<open>The pass of a node's preview: evalNodeSvg\<close>

text \<open>
  The transform node and the composite node each hold a copy of
  \<^verbatim>\<open>evalNodeSvg\<close>; the copies differ in the composite branch only.
\<close>

datatype owner = TransformNode | CompositeNode

text \<open>
  The memo table of \<^verbatim>\<open>evalNodeSvg\<close> holds promises. A promise is a number;
  the state records the promise of each node, the promises that have settled
  and the next free number. A promise that is not recorded as settled is
  pending.
\<close>

record passState =
  memo :: "string \<rightharpoonup> nat"
  settled :: "nat \<rightharpoonup> outcome"
  nextPromise :: nat

text \<open>
  \<^verbatim>\<open>memo.set(nodeId, p)\<close> is reached when the body of the node is suspended
  for the first time. A call for the first input runs before that, so a chain
  of first inputs is entered with none of its nodes in the table, and the
  nodes of the chain are entered into the table, the deepest first, when the
  chain is suspended.
\<close>

definition flush :: "(string \<times> nat) list \<Rightarrow> passState \<Rightarrow> passState" where
  "flush chain st = st\<lparr>memo := foldl (\<lambda>m ip. m(fst ip \<mapsto> snd ip)) (memo st) chain\<rparr>"

definition settle :: "nat \<Rightarrow> outcome \<Rightarrow> passState \<Rightarrow> outcome \<times> passState" where
  "settle p r st = (r, if r = Unsettled then st else st\<lparr>settled := (settled st)(p \<mapsto> r)\<rparr>)"

definition awaitPromise :: "passState \<Rightarrow> nat \<Rightarrow> outcome" where
  "awaitPromise st q = (case settled st q of Some r \<Rightarrow> r | None \<Rightarrow> Unsettled)"

definition findIn :: "graph \<Rightarrow> string \<Rightarrow> string option \<Rightarrow> flowEdge option" where
  "findIn g i handle =
     List.find (\<lambda>e. target e = i \<and>
                  (case handle of Some h \<Rightarrow> targetHandle e = Some h | None \<Rightarrow> \<not> truthy (targetHandle e)))
       (edges g)"

definition kanjiSvg :: "passEnv \<Rightarrow> jsstring option \<Rightarrow> outcome" where
  "kanjiSvg env ch =
     (case ch of
        None \<Rightarrow> Resolved None
      | Some c \<Rightarrow> if c = [] then Resolved None else ofResult (prepared env c))"

definition rangeSvg :: "platform \<Rightarrow> jsnum option \<Rightarrow> jsnum option \<Rightarrow> outcome \<Rightarrow> outcome" where
  "rangeSvg P start0 end0 input =
     (case input of
        Resolved v \<Rightarrow>
          if \<not> truthy v then Resolved None
          else (case bakeStrokes P (the v) of
                  Inl e \<Rightarrow> Rejected e
                | Inr (svg, count) \<Rightarrow>
                    (let maxC = jsOr (jsOr (natNum count) (intNum (countStrokes P svg))) (Fin 1);
                         sRaw = jsOr (toNumber start0) (Fin 1);
                         eRaw = jsOr (toNumber end0) maxC;
                         s = jsMin (jsMax (Fin 1) (jsMin sRaw eRaw)) maxC;
                         e = jsMin (jsMax (Fin 1) (jsMax sRaw eRaw)) maxC
                     in ofResult (applyRangeBaked P svg s e)))
      | other \<Rightarrow> other)"

definition transformSvg ::
  "platform \<Rightarrow> jsnum option \<Rightarrow> jsnum option \<Rightarrow> jsnum option \<Rightarrow> jsnum option \<Rightarrow> outcome \<Rightarrow> outcome" where
  "transformSvg P x y sx sy input =
     (case input of
        Resolved v \<Rightarrow>
          if \<not> truthy v then Resolved None
          else ofResult (applyTransform P (the v)
                 (paramNullish x (Fin 0)) (paramNullish y (Fin 0))
                 (paramNullish sx (Fin 1)) (paramNullish sy (Fin 1)))
      | other \<Rightarrow> other)"

definition compositeSvg ::
  "owner \<Rightarrow> platform \<Rightarrow> jsnum option \<Rightarrow> jsnum option \<Rightarrow> bool option \<Rightarrow> outcome \<Rightarrow> outcome \<Rightarrow> outcome" where
  "compositeSvg ow P alphaA alphaB swap inA inB =
     (case inA of
        Resolved a \<Rightarrow>
         (case inB of
            Resolved b \<Rightarrow>
              if truthy a \<and> truthy b
              then (case ow of
                      TransformNode \<Rightarrow> ofResult (composite P (the a) (the b))
                    | CompositeNode \<Rightarrow>
                        ofResult (compositeAlpha P (the a) (the b)
                          (paramNullish alphaA (Fin 1)) (paramNullish alphaB (Fin 1)) (toBool swap)))
              else if truthy a then Resolved a else Resolved b
          | other \<Rightarrow> other)
      | other \<Rightarrow> other)"

text \<open>
  \<^verbatim>\<open>evalNodeSvg(nodeId, depth, memo)\<close>. The result is what awaiting the
  returned promise yields. The argument \<open>chain\<close> lists the nodes, with their
  promises, whose bodies wait for this call as their first input and are not
  in the table yet. An input that never settles leaves the node pending.
\<close>

function evalNodeSvg ::
  "owner \<Rightarrow> platform \<Rightarrow> passEnv \<Rightarrow> graph \<Rightarrow> string \<Rightarrow> nat \<Rightarrow> (string \<times> nat) list \<Rightarrow> passState
    \<Rightarrow> outcome \<times> passState" where
  "evalNodeSvg ow P env g i depth chain st =
     (if i = [] then (Resolved None, flush chain st)
      else if depth > 20 then (Resolved None, flush chain st)
      else case memo st i of
        Some q \<Rightarrow> (awaitPromise st q, flush chain st)
      | None \<Rightarrow>
         (let p = nextPromise st;
              st0 = st\<lparr>nextPromise := Suc p\<rparr>;
              me = (i, p) # chain
          in case byId g i of
               None \<Rightarrow> settle p (Resolved None) (flush me st0)
             | Some n \<Rightarrow>
                (case nodeData n of
                   KanjiData ch \<Rightarrow> settle p (kanjiSvg env ch) (flush me st0)
                 | RangeData s e \<Rightarrow>
                    (let (inp, st1) =
                       (case findIn g i None of
                          None \<Rightarrow> (Resolved None, flush me st0)
                        | Some ed \<Rightarrow> evalNodeSvg ow P env g (source ed) (Suc depth) me st0)
                     in settle p (rangeSvg P s e inp) st1)
                 | TransformData x y sx sy \<Rightarrow>
                    (let (inp, st1) =
                       (case findIn g i None of
                          None \<Rightarrow> (Resolved None, flush me st0)
                        | Some ed \<Rightarrow> evalNodeSvg ow P env g (source ed) (Suc depth) me st0)
                     in settle p (transformSvg P x y sx sy inp) st1)
                 | CompositeData aa ab sw \<Rightarrow>
                    (let (a, st1) =
                       (case findIn g i (Some ''A'') of
                          None \<Rightarrow> (Resolved None, flush me st0)
                        | Some ed \<Rightarrow> evalNodeSvg ow P env g (source ed) (Suc depth) me st0)
                     in case a of
                          Resolved va \<Rightarrow>
                            (let (b, st2) =
                               (case findIn g i (Some ''B'') of
                                  None \<Rightarrow> (Resolved None, st1)
                                | Some ed \<Rightarrow> evalNodeSvg ow P env g (source ed) (Suc depth) [] st1)
                             in settle p (compositeSvg ow P aa ab sw a b) st2)
                        | other \<Rightarrow> settle p other st1)
                 | OtherData \<Rightarrow> settle p (Resolved None) (flush me st0))))"
  by pat_completeness auto
termination
  by (relation "measure (\<lambda>(ow, P, env, g, i, depth, chain, st). 21 - depth)") auto

declare evalNodeSvg.simps [simp del]



section \<open>An example platform\<close>

text \<open>
  A serializer that writes elements with their attributes and children (no
  escaping), and a parser that knows the documents of a given list by their
  serialized text and answers every other text with an error document, as a
  browser does for malformed XML.
\<close>

fun exSerializeNode :: "xnode \<Rightarrow> string" where
  "exSerializeNode (Element t a cs) =
     ''<'' @ t @ concat (map (\<lambda>kv. '' '' @ fst kv @ ''='' @ [CHR 0x22] @ snd kv @ [CHR 0x22]) a)
     @ (if cs = [] then ''/>''
        else ''>'' @ concat (map exSerializeNode cs) @ ''</'' @ t @ ''>'')"
| "exSerializeNode (Other s) = s"

definition exSerialize :: "document \<Rightarrow> string" where
  "exSerialize d = concat (map exSerializeNode d)"

definition exParse :: "document list \<Rightarrow> string \<Rightarrow> document option" where
  "exParse known s =
     (case List.find (\<lambda>d. exSerialize d = s) known of
        Some d \<Rightarrow> Some d
      | None \<Rightarrow> Some [Element ''parsererror'' [] [Other ''error'']])"

definition exNumberToString :: "jsnum \<Rightarrow> string" where
  "exNumberToString n =
     (case n of
        NaN \<Rightarrow> ''NaN''
      | PosInf \<Rightarrow> ''Infinity''
      | NegInf \<Rightarrow> ''-Infinity''
      | Fin r \<Rightarrow> (if r = 0 then ''0'' else if r = 1 then ''1'' else if r = 1 / 2 then ''0.5'' else ''?''))"

definition exPlatform :: "document list \<Rightarrow> platform" where
  "exPlatform known =
     \<lparr>parseFromString = exParse known, serializeToString = exSerialize,
      numberToString = exNumberToString\<rparr>"

definition docA :: document where
  "docA = [Element ''svg'' [(''viewBox'', ''0 0 109 109'')]
            [Element ''path'' [(''id'', ''a-s1'')] []]]"







definition docB :: document where
  "docB = [Element ''svg'' []
            [Element ''style'' [] [Other ''x''], Element ''line'' [(''id'', ''b-s2'')] []]]"

text \<open>Example graphs, glyph sources and states.\<close>

definition transformNode :: "string \<Rightarrow> flowNode" where
  "transformNode i = \<lparr>nodeId = i, nodeData = TransformData None None None None\<rparr>"

definition mkEdge :: "string \<Rightarrow> string \<Rightarrow> string option \<Rightarrow> flowEdge" where
  "mkEdge s t h = \<lparr>source = s, target = t, targetHandle = h\<rparr>"

definition gCycle :: graph where
  "gCycle = \<lparr>nodes = [transformNode ''t1'', transformNode ''t2''],
             edges = [mkEdge ''t2'' ''t1'' None, mkEdge ''t1'' ''t2'' None]\<rparr>"

definition gCycleB :: graph where
  "gCycleB = \<lparr>nodes = [\<lparr>nodeId = ''c'', nodeData = CompositeData None None None\<rparr>, transformNode ''t''],
              edges = [mkEdge ''t'' ''c'' (Some ''B''), mkEdge ''c'' ''t'' None]\<rparr>"




definition emptyGlyphState :: glyphState where
  "emptyGlyphState = \<lparr>svgCache = Map.empty, preparedCache = Map.empty, requests = []\<rparr>"

definition emptyPass :: passState where
  "emptyPass = \<lparr>memo = Map.empty, settled = Map.empty, nextPromise = 0\<rparr>"

definition netDown :: network where
  "netDown k url t = (if k = 0 then NotOk else FetchRejects)"

definition netServing :: "string \<Rightarrow> network" where
  "netServing body k url t = Body body"




text \<open>A selector that looks at the tag and the attributes of an element only.\<close>

definition shallow :: "(xnode \<Rightarrow> bool) \<Rightarrow> bool" where
  "shallow sel =
     ((\<forall>t a cs cs'. sel (Element t a cs) = sel (Element t a cs')) \<and> (\<forall>s. \<not> sel (Other s)))"

section \<open>Properties\<close>

lemma parseInt_backslash: "parseInt (CHR 0x5C # ds) = None"
  by (simp add: parseInt_def isWhite_def isDigit_def)

lemma matchBackslashD_NaN: "matchBackslashD ident = Some m1 \<Longrightarrow> parseInt m1 = None"
  by (auto simp: matchBackslashD_def Let_def parseInt_backslash split: if_splits)

lemma countStrokes_step_range:
  "mx \<in> {None, Some 0} \<Longrightarrow> countStrokes_step mx el \<in> {None, Some 0}"
  by (auto simp: countStrokes_step_def matchBackslashD_NaN split: option.splits)

lemma countStrokes_fold_range:
  "mx \<in> {None, Some 0} \<Longrightarrow> foldl countStrokes_step mx els \<in> {None, Some 0}"
proof (induction els arbitrary: mx)
  case Nil
  then show ?case by simp
next
  case (Cons el els)
  from Cons.prems have "countStrokes_step mx el \<in> {None, Some 0}"
    by (rule countStrokes_step_range)
  then show ?case using Cons.IH by simp
qed

text \<open>
  C10. \<^verbatim>\<open>countStrokes\<close> returns at least 1 for every input text and every
  parser: the number of baked groups when there is one, and otherwise 1,
  also when the parser throws. It never returns 0.
\<close>

theorem countStrokes_at_least_one: "1 \<le> countStrokes P svgText"
proof (cases "parseFromString P svgText")
  case None
  then show ?thesis by (simp add: countStrokes_def)
next
  case (Some doc)
  have "foldl countStrokes_step (Some 0) (querySelectorAll sel_id doc) \<in> {None, Some 0}"
    by (rule countStrokes_fold_range) simp
  then have "numOr (foldl countStrokes_step (Some 0) (querySelectorAll sel_id doc)) 1 = 1"
    by auto
  then show ?thesis using Some
    by (cases "querySelectorAll sel_g_data_stroke doc") (simp_all add: countStrokes_def Let_def)
qed

text \<open>
  C7. \<^verbatim>\<open>composite(A, A)\<close> returns A itself: when the two inputs are the same
  text the first is returned before anything is parsed.
\<close>

theorem composite_identity: "composite P svgA svgA = Inr svgA"
  by (simp add: composite_def)

lemma find_append_eq:
  "List.find p (xs @ ys) = (case List.find p xs of Some v \<Rightarrow> Some v | None \<Rightarrow> List.find p ys)"
  by (induction xs) auto

lemma elements_Cons: "elements (x # xs) = subtree x @ elements xs"
  by (simp add: elements_def)

lemma elements_Nil: "elements [] = []"
  by (simp add: elements_def)

lemma subtree_Element: "subtree (Element t a cs) = Element t a cs # elements cs"
  by (simp add: elements_def)

lemma modFirst_None:
  "(modFirstN sel f x = None) = (List.find sel (subtree x) = None)"
  "(modFirstL sel f xs = None) = (List.find sel (elements xs) = None)"
proof (induction sel f x and sel f xs rule: modFirstN_modFirstL.induct)
  case (1 sel f s)
  then show ?case by simp
next
  case (2 sel f t a cs)
  then show ?case by (simp add: subtree_Element del: subtree.simps)
next
  case (3 sel f)
  then show ?case by (simp add: elements_Nil)
next
  case (4 sel f x xs)
  then show ?case
    by (auto simp: elements_Cons find_append_eq split: option.splits)
qed

lemma modFirst_find:
  "shallow sel \<Longrightarrow> (\<forall>el. sel el \<longrightarrow> sel (f el)) \<Longrightarrow> modFirstN sel f x = Some x' \<Longrightarrow>
     \<exists>el. List.find sel (subtree x) = Some el \<and> List.find sel (subtree x') = Some (f el)"
  "shallow sel \<Longrightarrow> (\<forall>el. sel el \<longrightarrow> sel (f el)) \<Longrightarrow> modFirstL sel f xs = Some xs' \<Longrightarrow>
     \<exists>el. List.find sel (elements xs) = Some el \<and> List.find sel (elements xs') = Some (f el)"
proof (induction sel f x and sel f xs arbitrary: x' and xs' rule: modFirstN_modFirstL.induct)
  case (1 sel f s)
  then show ?case by simp
next
  case (2 sel f t a cs)
  show ?case
  proof (cases "sel (Element t a cs)")
    case True
    with "2.prems" have x': "x' = f (Element t a cs)" by simp
    have sf: "sel (f (Element t a cs))" using True "2.prems" by blast
    obtain t' a' cs' where fe: "f (Element t a cs) = Element t' a' cs'"
      using sf "2.prems"(1) by (cases "f (Element t a cs)") (auto simp: shallow_def)
    show ?thesis using True sf x' fe by simp
  next
    case False
    with "2.prems" obtain cs' where cs': "modFirstL sel f cs = Some cs'" and x': "x' = Element t a cs'"
      by auto
    from "2.IH"[OF False "2.prems"(1,2) cs'] obtain el where
      "List.find sel (elements cs) = Some el" "List.find sel (elements cs') = Some (f el)" by blast
    moreover have "\<not> sel (Element t a cs')" using False "2.prems"(1) unfolding shallow_def by blast
    ultimately show ?thesis using False x'
      by (simp add: subtree_Element del: subtree.simps)
  qed
next
  case (3 sel f)
  then show ?case by simp
next
  case (4 sel f x xs)
  show ?case
  proof (cases "modFirstN sel f x")
    case None
    with "4.prems" obtain ys where ys: "modFirstL sel f xs = Some ys" and xs': "xs' = x # ys"
      by auto
    from "4.IH"(2)[OF None "4.prems"(1,2) ys] obtain el where
      "List.find sel (elements xs) = Some el" "List.find sel (elements ys) = Some (f el)" by blast
    moreover have "List.find sel (subtree x) = None" using None modFirst_None(1) by blast
    ultimately show ?thesis using xs' by (simp add: elements_Cons find_append_eq)
  next
    case (Some y)
    with "4.prems" have xs': "xs' = y # xs" by simp
    from "4.IH"(1)[OF "4.prems"(1,2) Some] obtain el where
      "List.find sel (subtree x) = Some el" "List.find sel (subtree y) = Some (f el)" by blast
    then show ?thesis using xs' by (simp add: elements_Cons find_append_eq)
  qed
qed

lemma querySelector_modifyFirst:
  assumes "shallow sel" "\<And>el. sel el \<Longrightarrow> sel (f el)" "querySelector sel d = Some el"
  shows "querySelector sel (modifyFirst sel f d) = Some (f el)"
proof -
  from assms(3) have "modFirstL sel f d \<noteq> None"
    using modFirst_None(2)[of sel f d] by (simp add: querySelector_def)
  then obtain d' where d': "modFirstL sel f d = Some d'" by blast
  from modFirst_find(2)[OF assms(1) _ d'] assms(2) obtain el' where
    "List.find sel (elements d) = Some el'" "List.find sel (elements d') = Some (f el')" by blast
  then show ?thesis using assms(3) d' by (simp add: querySelector_def modifyFirst_def)
qed

lemma shallow_sel_svg: "shallow sel_svg"
  by (simp add: shallow_def sel_svg_def localName_def)


text \<open>
  C9. \<^verbatim>\<open>forceStrokeColor\<close> and \<^verbatim>\<open>applyTransform\<close> never throw, whatever the
  input text and the parser: when the parser throws, or the parsed document
  has no \<^verbatim>\<open>svg\<close> element (the error document of malformed XML), both
  return the input text unchanged.
\<close>

theorem parse_failure_returns_input:
  "(\<exists>r. forceStrokeColor P svgText color = Inr r) \<and>
   (\<exists>r. applyTransform P svgText x y sx sy = Inr r) \<and>
   ((parseFromString P svgText = None \<or>
     (\<exists>doc. parseFromString P svgText = Some doc \<and> querySelector sel_svg doc = None)) \<longrightarrow>
    forceStrokeColor P svgText color = Inr svgText \<and>
    applyTransform P svgText x y sx sy = Inr svgText)"
  by (auto simp: forceStrokeColor_def forceStrokeColor_try_def applyTransform_def
      applyTransform_try_def split: option.splits sum.splits)

theorem parse_failure_returns_input_witness:
  "(\<exists>doc. parseFromString (exPlatform [docA]) ''<svg'' = Some doc \<and> querySelector sel_svg doc = None) \<and>
   forceStrokeColor (exPlatform [docA]) ''<svg'' ''#fff'' = Inr ''<svg'' \<and>
   applyTransform (exPlatform [docA]) ''<svg'' (Fin 1) (Fin 2) (Fin 1) (Fin 1) = Inr ''<svg''"
proof -
  have h: "\<exists>doc. parseFromString (exPlatform [docA]) ''<svg'' = Some doc \<and> querySelector sel_svg doc = None"
    by (simp add: exPlatform_def exParse_def exSerialize_def docA_def querySelector_def
        elements_def sel_svg_def localName_def)
  show ?thesis
    using h parse_failure_returns_input [of "exPlatform [docA]" "''<svg''" "''#fff''" "Fin 1" "Fin 2" "Fin 1" "Fin 1"]
    by blast
qed

lemma clamp_Fin: "clamp (Fin r) = Fin (max 0 (min 1 r))"
  by (simp add: clamp_def jsMin_def jsMax_def max_def min_def)

text \<open>
  C8. For two texts whose documents have an \<^verbatim>\<open>svg\<close> element,
  \<^verbatim>\<open>compositeAlpha\<close> returns A's document in which the child nodes of the
  \<^verbatim>\<open>svg\<close> element are exactly two groups: one holding A's element children with
  opacity \<open>clamp alphaA\<close>, one holding B's element children with opacity
  \<open>clamp alphaB\<close>, A's group first, or B's group first when \<^verbatim>\<open>swap\<close> is set.
  The clamp of a finite number is the number cut to the interval from 0 to 1.
\<close>

theorem compositeAlpha_two_groups:
  assumes "parseFromString P svgA = Some aDoc" and "parseFromString P svgB = Some bDoc"
    and "querySelector sel_svg aDoc = Some out" and "querySelector sel_svg bDoc = Some inb"
  shows "\<exists>d root gA gB.
           compositeAlpha P svgA svgB alphaA alphaB swap = Inr (serializeToString P d) \<and>
           d = modifyFirst sel_svg (setChildNodes (if swap then [gB, gA] else [gA, gB])) aDoc \<and>
           querySelector sel_svg d = Some root \<and>
           tagName root = tagName out \<and> attributes root = attributes out \<and>
           childNodes root = (if swap then [gB, gA] else [gA, gB]) \<and>
           gA = Element ''g'' [(''opacity'', numberToString P (clamp alphaA))] (children out) \<and>
           gB = Element ''g'' [(''opacity'', numberToString P (clamp alphaB))] (children inb) \<and>
           (\<forall>r. clamp (Fin r) = Fin (max 0 (min 1 r)))"
proof -
  let ?gA = "alphaGroup P alphaA (children out)"
  let ?gB = "alphaGroup P alphaB (children inb)"
  let ?f = "setChildNodes (if swap then [?gB, ?gA] else [?gA, ?gB])"
  let ?d = "modifyFirst sel_svg ?f aDoc"
  have pres: "sel_svg (?f el)" if "sel_svg el" for el
    using that by (cases el) (auto simp: sel_svg_def localName_def split: if_splits)
  have q: "querySelector sel_svg ?d = Some (?f out)"
    by (rule querySelector_modifyFirst [OF shallow_sel_svg pres assms(3)])
  have el: "isElement out"
    using assms(3) by (auto simp: querySelector_def sel_svg_def dest: find_Some_iff [THEN iffD1])
  then obtain t a cs where out: "out = Element t a cs" by (cases out) auto
  have c: "compositeAlpha P svgA svgB alphaA alphaB swap = Inr (serializeToString P ?d)"
    using assms by (simp add: compositeAlpha_def compositeAlphaDoc_def Let_def)
  show ?thesis
    using c q out by (auto simp: alphaGroup_def clamp_Fin)
qed

theorem compositeAlpha_two_groups_witness:
  "parseFromString (exPlatform [docA, docB]) (exSerialize docA) = Some docA \<and>
   parseFromString (exPlatform [docA, docB]) (exSerialize docB) = Some docB \<and>
   querySelector sel_svg docA = Some (hd docA) \<and>
   querySelector sel_svg docB = Some (hd docB) \<and>
   compositeAlpha (exPlatform [docA, docB]) (exSerialize docA) (exSerialize docB) (Fin 2) (Fin (1 / 2)) True
     = Inr (exSerialize
         [Element ''svg'' [(''viewBox'', ''0 0 109 109'')]
           [Element ''g'' [(''opacity'', ''0.5'')]
              [Element ''style'' [] [Other ''x''], Element ''line'' [(''id'', ''b-s2'')] []],
            Element ''g'' [(''opacity'', ''1'')] [Element ''path'' [(''id'', ''a-s1'')] []]]])"
proof -
  have h1: "parseFromString (exPlatform [docA, docB]) (exSerialize docA) = Some docA"
    by (simp add: exPlatform_def exParse_def exSerialize_def docA_def docB_def)
  have h2: "parseFromString (exPlatform [docA, docB]) (exSerialize docB) = Some docB"
    by (simp add: exPlatform_def exParse_def exSerialize_def docA_def docB_def)
  have h3: "querySelector sel_svg docA = Some (hd docA)"
    by (simp add: querySelector_def elements_def docA_def sel_svg_def localName_def)
  have h4: "querySelector sel_svg docB = Some (hd docB)"
    by (simp add: querySelector_def elements_def docB_def sel_svg_def localName_def)
  from compositeAlpha_two_groups [OF h1 h2 h3 h4, of "Fin 2" "Fin (1 / 2)" True]
  have "compositeAlpha (exPlatform [docA, docB]) (exSerialize docA) (exSerialize docB) (Fin 2) (Fin (1 / 2)) True
     = Inr (exSerialize
         [Element ''svg'' [(''viewBox'', ''0 0 109 109'')]
           [Element ''g'' [(''opacity'', ''0.5'')]
              [Element ''style'' [] [Other ''x''], Element ''line'' [(''id'', ''b-s2'')] []],
            Element ''g'' [(''opacity'', ''1'')] [Element ''path'' [(''id'', ''a-s1'')] []]]])"
    by (simp add: exPlatform_def exNumberToString_def clamp_Fin modifyFirst_def docA_def docB_def
        sel_svg_def localName_def children_def)
  with h1 h2 h3 h4 show ?thesis by blast
qed




































































lemma descendants_subset: "z \<in> set (descendants el) \<Longrightarrow> z \<in> set (subtree el)"
  by (cases el) (auto simp: descendants_def elements_def)



























lemma tryFetch_eq:
  "tryFetch net st url t = (fetched (net (length (requests st)) url t), st\<lparr>requests := requests st @ [(url, t)]\<rparr>)"
  by (simp add: tryFetch_def fetched_def)

lemma fetch_miss_first_request:
  assumes "code5 ch = Inr c5" and "svgCache st c5 = None"
  shows "take 1 (drop (length (requests st)) (requests (snd (fetchKanjiVGSvg net st ch))))
           = [(githubSvgUrl c5, 6000)]"
  using assms by (simp add: fetchKanjiVGSvg_def tryFetch_eq Let_def)

text \<open>
  C5. On a cache miss \<^verbatim>\<open>fetchKanjiVGSvg\<close> requests the remote address with
  an abort after 6000 ms. When that yields a text the text is returned and
  cached under the identifier of the code point. Otherwise the local address
  is requested with the same bound, and its text is returned and cached.
  When both yield nothing the call throws NotFound and leaves the cache as it
  was, so that a later call requests the remote address again.
\<close>

theorem fetchKanjiVGSvg_fallback_chain:
  assumes "code5 ch = Inr c5" and "svgCache st c5 = None"
    and "gh = fetched (net (length (requests st)) (githubSvgUrl c5) 6000)"
    and "loc = fetched (net (Suc (length (requests st))) (localSvgUrl c5) 6000)"
    and "fetchKanjiVGSvg net st ch = (r, st')"
  shows "(truthy gh \<longrightarrow>
            r = Inr (the gh) \<and> svgCache st' = (svgCache st)(c5 \<mapsto> the gh) \<and>
            requests st' = requests st @ [(githubSvgUrl c5, 6000)]) \<and>
         (\<not> truthy gh \<and> truthy loc \<longrightarrow>
            r = Inr (the loc) \<and> svgCache st' = (svgCache st)(c5 \<mapsto> the loc) \<and>
            requests st' = requests st @ [(githubSvgUrl c5, 6000), (localSvgUrl c5, 6000)]) \<and>
         (\<not> truthy gh \<and> \<not> truthy loc \<longrightarrow>
            r = Inl (NotFound c5) \<and> svgCache st' = svgCache st \<and>
            requests st' = requests st @ [(githubSvgUrl c5, 6000), (localSvgUrl c5, 6000)] \<and>
            (\<forall>net2. take 1 (drop (length (requests st')) (requests (snd (fetchKanjiVGSvg net2 st' ch))))
                      = [(githubSvgUrl c5, 6000)]))"
proof -
  have 1: "truthy gh \<Longrightarrow> r = Inr (the gh) \<and> svgCache st' = (svgCache st)(c5 \<mapsto> the gh) \<and>
            requests st' = requests st @ [(githubSvgUrl c5, 6000)]"
    using assms by (auto simp: fetchKanjiVGSvg_def tryFetch_eq Let_def)
  have 2: "\<not> truthy gh \<Longrightarrow> truthy loc \<Longrightarrow>
            r = Inr (the loc) \<and> svgCache st' = (svgCache st)(c5 \<mapsto> the loc) \<and>
            requests st' = requests st @ [(githubSvgUrl c5, 6000), (localSvgUrl c5, 6000)]"
    using assms by (auto simp: fetchKanjiVGSvg_def tryFetch_eq Let_def)
  have 3: "r = Inl (NotFound c5) \<and> svgCache st' = svgCache st \<and>
            requests st' = requests st @ [(githubSvgUrl c5, 6000), (localSvgUrl c5, 6000)]"
    if "\<not> truthy gh" "\<not> truthy loc"
    using assms that by (auto simp: fetchKanjiVGSvg_def tryFetch_eq Let_def)
  have 4: "take 1 (drop (length (requests st')) (requests (snd (fetchKanjiVGSvg net2 st' ch))))
                      = [(githubSvgUrl c5, 6000)]"
    if "\<not> truthy gh" "\<not> truthy loc" for net2
    using 3 [OF that] assms(2) by (intro fetch_miss_first_request [OF assms(1)]) simp
  show ?thesis using 1 2 3 4 by blast
qed

theorem fetchKanjiVGSvg_fallback_chain_witness:
  "code5 [0x6c38] = Inr ''06c38'' \<and>
   svgCache emptyGlyphState ''06c38'' = None \<and>
   fst (fetchKanjiVGSvg netDown emptyGlyphState [0x6c38]) = Inl (NotFound ''06c38'') \<and>
   svgCache (snd (fetchKanjiVGSvg netDown emptyGlyphState [0x6c38])) = svgCache emptyGlyphState \<and>
   requests (snd (fetchKanjiVGSvg netDown emptyGlyphState [0x6c38]))
     = [(githubSvgUrl ''06c38'', 6000), (localSvgUrl ''06c38'', 6000)] \<and>
   take 1 (drop 2 (requests (snd (fetchKanjiVGSvg (netServing ''<svg/>'')
                                (snd (fetchKanjiVGSvg netDown emptyGlyphState [0x6c38])) [0x6c38]))))
     = [(githubSvgUrl ''06c38'', 6000)]"
proof -
  let ?r = "fetchKanjiVGSvg netDown emptyGlyphState [0x6c38]"
  have h1: "code5 [0x6c38] = Inr ''06c38''"
    by (simp add: code5_def pad5_def toLowerCase_def toLowerChar_def toString16.simps)
  have h2: "svgCache emptyGlyphState ''06c38'' = None"
    by (simp add: emptyGlyphState_def)
  have g: "\<not> truthy (fetched (netDown (length (requests emptyGlyphState)) (githubSvgUrl ''06c38'') 6000))"
    by (simp add: netDown_def fetched_def emptyGlyphState_def)
  have l: "\<not> truthy (fetched (netDown (Suc (length (requests emptyGlyphState))) (localSvgUrl ''06c38'') 6000))"
    by (simp add: netDown_def fetched_def emptyGlyphState_def)
  have e: "requests emptyGlyphState = []"
    by (simp add: emptyGlyphState_def)
  from fetchKanjiVGSvg_fallback_chain [OF h1 h2 refl refl prod.collapse [symmetric], of netDown] g l
  have "fst ?r = Inl (NotFound ''06c38'')"
    and "svgCache (snd ?r) = svgCache emptyGlyphState"
    and q: "requests (snd ?r) = requests emptyGlyphState @ [(githubSvgUrl ''06c38'', 6000), (localSvgUrl ''06c38'', 6000)]"
    and "\<forall>net2. take 1 (drop (length (requests (snd ?r))) (requests (snd (fetchKanjiVGSvg net2 (snd ?r) [0x6c38]))))
                      = [(githubSvgUrl ''06c38'', 6000)]"
    by blast+
  then show ?thesis using h1 h2 e by (simp add: numeral_2_eq_2)
qed


















lemma byId_gCycle:
  "byId gCycle ''t1'' = Some (transformNode ''t1'')" "byId gCycle ''t2'' = Some (transformNode ''t2'')"
  by (simp_all add: byId_def gCycle_def transformNode_def)

lemma ins_gCycle:
  "ins gCycle ''t1'' = [mkEdge ''t2'' ''t1'' None]" "ins gCycle ''t2'' = [mkEdge ''t1'' ''t2'' None]"
  by (simp_all add: ins_def gCycle_def mkEdge_def)

lemma evalNode_gCycle:
  "m ''t1'' = None \<Longrightarrow> m ''t2'' = None \<Longrightarrow>
   evalNode k P env gCycle ''t1'' m = None \<and> evalNode k P env gCycle ''t2'' m = None"
proof (induction k arbitrary: m)
  case 0
  then show ?case by simp
next
  case (Suc k)
  from Suc.IH [OF Suc.prems] show ?case
    using Suc.prems by (simp add: byId_gCycle ins_gCycle mkEdge_def)
qed

text \<open>
  C2. On the cycle of two transform nodes the pass of the application,
  \<^verbatim>\<open>evalNode\<close>, does not return with any depth of recursion: it has no depth
  counter. The pass of a node's preview, \<^verbatim>\<open>evalNodeSvg\<close>, has the counter
  and resolves to null on the same graph; on a cycle that runs through port B
  of a composite node its promise never settles.
\<close>

theorem evalNode_unbounded_on_cycle:
  "(\<forall>k. evalNode k P env gCycle ''t1'' Map.empty = None) \<and>
   fst (evalNodeSvg ow P env gCycle ''t1'' 0 [] emptyPass) = Resolved None \<and>
   fst (evalNodeSvg ow P env gCycleB ''c'' 0 [] emptyPass) = Unsettled"
proof -
  have 1: "\<forall>k. evalNode k P env gCycle ''t1'' Map.empty = None"
    using evalNode_gCycle [of Map.empty] by simp
  have 2: "fst (evalNodeSvg ow P env gCycle ''t1'' 0 [] emptyPass) = Resolved None"
    by code_simp
  have 3: "fst (evalNodeSvg ow P env gCycleB ''c'' 0 [] emptyPass) = Unsettled"
    by code_simp
  show ?thesis using 1 2 3 by blast
qed









end
